theory Spec2Isabelle
  imports Complex_Main
begin

section \<open>The listings dashboard: data model\<close>

text \<open>
  The program (\<^verbatim>\<open>src/app.py\<close>) loads a table of listings and, whenever the
  neighbourhood selector changes, recomputes eleven outputs in the callback
  \<^verbatim>\<open>update_num_listings\<close>. A float the program computes is a \<open>pyfloat\<close>: a number,
  taken exactly as a rational (binary rounding of float64 is not modelled), one of the
  two infinities, or NaN. A float cell of the table is a number or missing (NaN); a
  string cell that may be missing is an optional string. Python exceptions are values of
  \<open>py_error\<close>.
\<close>

datatype pyfloat = Fin rat | PInf | NInf | NaN

type_synonym cell = "rat option"

definition of_cell :: "cell \<Rightarrow> pyfloat" where
  "of_cell c = (case c of None \<Rightarrow> NaN | Some q \<Rightarrow> Fin q)"

datatype py_error = ValueError | ZeroDivisionError

text \<open>
  One row of \<^verbatim>\<open>listings.csv\<close>, with the columns the program reads. Every listing
  carries a neighbourhood label and a room type, which the program only ever compares
  with \<^verbatim>\<open>==\<close>; the price cell and the float cells may be missing.
\<close>

record listing =
  name :: string
  host_name :: string
  host_since :: string
  room_type :: string
  price :: "string option"
  latitude :: cell
  longitude :: cell
  accommodates :: int
  availability_365 :: int
  minimum_nights_avg_ntm :: cell
  reviews_per_month :: cell
  number_of_reviews :: int
  neighbourhood_cleansed :: string

section \<open>Library operations the program calls\<close>

subsection \<open>Python string methods\<close>

text \<open>\<^verbatim>\<open>s.replace(c, new)\<close> for a one-character pattern \<open>c\<close>.\<close>

definition str_replace :: "char \<Rightarrow> string \<Rightarrow> string \<Rightarrow> string" where
  "str_replace c new s = concat (map (\<lambda>x. if x = c then new else [x]) s)"

text \<open>
  \<^verbatim>\<open>s.rstrip(chars)\<close>: the argument is a set of characters, and every trailing
  character of \<open>s\<close> that belongs to it is removed.
\<close>

definition rstrip :: "string \<Rightarrow> string \<Rightarrow> string" where
  "rstrip chars s = rev (dropWhile (\<lambda>c. c \<in> set chars) (rev s))"

subsection \<open>Numeric parsing\<close>

definition is_digit :: "char \<Rightarrow> bool" where
  "is_digit c = (c \<in> set ''0123456789'')"

text \<open>The blanks of the C locale: space, tab, line feed, vertical tab, form feed, return.\<close>

definition is_space :: "char \<Rightarrow> bool" where
  "is_space c = (c \<in> set [CHR '' '', CHR 0x09, CHR 0x0A, CHR 0x0B, CHR 0x0C, CHR 0x0D])"

definition digit_val :: "char \<Rightarrow> nat" where
  "digit_val c = of_char c - 48"

definition digits_val :: "string \<Rightarrow> nat" where
  "digits_val ds = foldl (\<lambda>n c. n * 10 + digit_val c) 0 ds"

definition pow10 :: "int \<Rightarrow> rat" where
  "pow10 e = (if 0 \<le> e then 10 ^ nat e else 1 / 10 ^ nat (- e))"

text \<open>An optional sign at the head of a string: whether it is a minus, and the rest.\<close>

definition split_sign :: "string \<Rightarrow> bool \<times> string" where
  "split_sign s =
     (case s of
        c # t \<Rightarrow> if c = CHR ''-'' then (True, t)
                 else if c = CHR ''+'' then (False, t) else (False, s)
      | [] \<Rightarrow> (False, s))"

text \<open>
  The number reader that \<^verbatim>\<open>pd.to_numeric\<close> applies to a string (pandas' \<^verbatim>\<open>xstrtod\<close>):
  leading blanks, an optional sign, digits, an optional point and more digits (at least
  one digit in all), an optional exponent (\<^verbatim>\<open>e\<close> or \<^verbatim>\<open>E\<close>, an optional sign, at least
  one digit; an exponent mark without digits is not consumed), trailing blanks, and
  nothing after them. \<open>None\<close> is a failed read. The value is taken exactly: the limits
  of float64 (17 significant digits, magnitudes beyond about \<open>1.8e308\<close>) and of 64-bit
  integers are not modelled.
\<close>

definition xstrtod :: "string \<Rightarrow> rat option" where
  "xstrtod s =
     (let (neg, body) = split_sign (dropWhile is_space s);
          ip = takeWhile is_digit body;
          r1 = dropWhile is_digit body;
          (fp, r2) =
            (case r1 of
               c # t \<Rightarrow> if c = CHR ''.'' then (takeWhile is_digit t, dropWhile is_digit t)
                        else ([], r1)
             | [] \<Rightarrow> ([], r1));
          (ex, r3) =
            (case r2 of
               c # t \<Rightarrow>
                 if c = CHR ''e'' \<or> c = CHR ''E'' then
                   (let (eneg, q) = split_sign t;
                        ds = takeWhile is_digit q
                    in if ds = [] then (0, r2)
                       else (if eneg then - int (digits_val ds) else int (digits_val ds),
                             dropWhile is_digit q))
                 else (0, r2)
             | [] \<Rightarrow> (0, r2))
      in if ip = [] \<and> fp = [] then None
         else if dropWhile is_space r3 \<noteq> [] then None
         else
           let m = of_nat (digits_val (ip @ fp)) * pow10 (ex - int (length fp))
           in Some (if neg then - m else m))"

text \<open>ASCII lower case, as the C library's case-blind comparison uses it.\<close>

definition tolower :: "char \<Rightarrow> char" where
  "tolower c =
     (case map_of (zip ''ABCDEFGHIJKLMNOPQRSTUVWXYZ'' ''abcdefghijklmnopqrstuvwxyz'') c of
        Some l \<Rightarrow> l
      | None \<Rightarrow> c)"

text \<open>
  The words read as an infinity when the number reader fails: \<^verbatim>\<open>inf\<close> and
  \<^verbatim>\<open>infinity\<close> in any letter case, with an optional sign and nothing else around them.
\<close>

definition inf_word :: "string \<Rightarrow> pyfloat option" where
  "inf_word s =
     (let w = map tolower s
      in if w \<in> set [''inf'', ''+inf'', ''infinity'', ''+infinity''] then Some PInf
         else if w \<in> set [''-inf'', ''-infinity''] then Some NInf
         else None)"

text \<open>
  \<^verbatim>\<open>pd.to_numeric\<close> on one string cell, with the default \<^verbatim>\<open>errors="raise"\<close>: the
  empty string converts to NaN; a string the number reader accepts converts to its
  value; a word for infinity converts to that infinity; any other text raises
  \<^verbatim>\<open>ValueError\<close>.
\<close>

definition parse_float :: "string \<Rightarrow> py_error + pyfloat" where
  "parse_float s =
     (if s = [] then Inr NaN
      else
        (case xstrtod s of
           Some q \<Rightarrow> Inr (Fin q)
         | None \<Rightarrow> (case inf_word s of Some v \<Rightarrow> Inr v | None \<Rightarrow> Inl ValueError)))"

text \<open>A missing cell stays NaN; a string cell is parsed.\<close>

definition to_numeric_cell :: "string option \<Rightarrow> py_error + pyfloat" where
  "to_numeric_cell c = (case c of None \<Rightarrow> Inr NaN | Some s \<Rightarrow> parse_float s)"

text \<open>
  \<^verbatim>\<open>pd.to_numeric\<close> on a column: the first cell that does not parse aborts the
  conversion.
\<close>

fun to_numeric :: "string option list \<Rightarrow> py_error + pyfloat list" where
  "to_numeric [] = Inr []"
| "to_numeric (c # cs) =
     (case to_numeric_cell c of
        Inl e \<Rightarrow> Inl e
      | Inr v \<Rightarrow> (case to_numeric cs of Inl e \<Rightarrow> Inl e | Inr vs \<Rightarrow> Inr (v # vs)))"

subsection \<open>Series arithmetic\<close>

text \<open>The numbers of a float column of the table, missing cells left out.\<close>

fun present :: "cell list \<Rightarrow> rat list" where
  "present [] = []"
| "present (None # xs) = present xs"
| "present (Some v # xs) = v # present xs"

text \<open>\<^verbatim>\<open>Series.dropna()\<close> on a column of cells.\<close>

definition dropna :: "cell list \<Rightarrow> cell list" where
  "dropna xs = filter (\<lambda>x. x \<noteq> None) xs"

text \<open>The product of two columns of the table, cell by cell; a missing factor gives NaN.\<close>

definition cmul :: "cell \<Rightarrow> cell \<Rightarrow> cell" where
  "cmul a b =
     (case a of None \<Rightarrow> None
      | Some x \<Rightarrow> (case b of None \<Rightarrow> None | Some y \<Rightarrow> Some (x * y)))"

text \<open>
  \<^verbatim>\<open>Series.mean()\<close>: NaN entries are skipped and the sum of the rest is divided by
  their number. With none left the mean is NaN; an infinity among them makes the sum,
  and so the mean, that infinity, and both infinities make it NaN.
\<close>

fun fin_val :: "pyfloat \<Rightarrow> rat" where
  "fin_val (Fin q) = q"
| "fin_val PInf = 0"
| "fin_val NInf = 0"
| "fin_val NaN = 0"

definition mean :: "pyfloat list \<Rightarrow> pyfloat" where
  "mean xs =
     (let vs = filter (\<lambda>x. x \<noteq> NaN) xs
      in if vs = [] then NaN
         else if PInf \<in> set vs \<and> NInf \<in> set vs then NaN
         else if PInf \<in> set vs then PInf
         else if NInf \<in> set vs then NInf
         else Fin (sum_list (map fin_val vs) / of_nat (length vs)))"

text \<open>
  Float multiplication: NaN propagates, zero times an infinity is NaN, otherwise the
  signs multiply.
\<close>

definition signed_inf :: "bool \<Rightarrow> pyfloat" where
  "signed_inf negative = (if negative then NInf else PInf)"

fun fmul :: "pyfloat \<Rightarrow> pyfloat \<Rightarrow> pyfloat" where
  "fmul NaN y = NaN"
| "fmul x NaN = NaN"
| "fmul (Fin a) (Fin b) = Fin (a * b)"
| "fmul (Fin a) PInf = (if a = 0 then NaN else signed_inf (a < 0))"
| "fmul (Fin a) NInf = (if a = 0 then NaN else signed_inf (0 < a))"
| "fmul PInf (Fin b) = (if b = 0 then NaN else signed_inf (b < 0))"
| "fmul NInf (Fin b) = (if b = 0 then NaN else signed_inf (0 < b))"
| "fmul PInf PInf = PInf"
| "fmul PInf NInf = NInf"
| "fmul NInf PInf = NInf"
| "fmul NInf NInf = PInf"

text \<open>Division of a float by a positive numeric literal.\<close>

fun fdiv_lit :: "pyfloat \<Rightarrow> rat \<Rightarrow> pyfloat" where
  "fdiv_lit (Fin x) c = Fin (x / c)"
| "fdiv_lit PInf c = PInf"
| "fdiv_lit NInf c = NInf"
| "fdiv_lit NaN c = NaN"

text \<open>Python's \<^verbatim>\<open>/\<close> on two integers (here: two lengths).\<close>

definition py_truediv :: "nat \<Rightarrow> nat \<Rightarrow> py_error + rat" where
  "py_truediv a b = (if b = 0 then Inl ZeroDivisionError else Inr (of_nat a / of_nat b))"

text \<open>
  Rounding to the nearest integer, ties to the even neighbour, and \<^verbatim>\<open>round(x, 1)\<close>
  on a float column built from it.
\<close>

definition rint :: "rat \<Rightarrow> int" where
  "rint x =
     (let f = \<lfloor>x\<rfloor>; d = x - of_int f
      in if d < 1 / 2 then f else if 1 / 2 < d then f + 1
         else if even f then f else f + 1)"

definition round1 :: "rat \<Rightarrow> rat" where
  "round1 x = of_int (rint (x * 10)) / 10"

text \<open>\<^verbatim>\<open>Series.unique()\<close>: the distinct values in order of first appearance.\<close>

fun unique :: "'a list \<Rightarrow> 'a list" where
  "unique [] = []"
| "unique (x # xs) = x # unique (filter (\<lambda>y. y \<noteq> x) xs)"

section \<open>Module constants\<close>

text \<open>\<^verbatim>\<open>neighbourhoods = listings["neighbourhood_cleansed"].unique()\<close>\<close>

definition neighbourhoods :: "listing list \<Rightarrow> string list" where
  "neighbourhoods listings = unique (map neighbourhood_cleansed listings)"

text \<open>The share of guests who do not leave a review.\<close>

definition guests_not_leaving_review :: rat where
  "guests_not_leaving_review = 65 / 100"

section \<open>The chart builders\<close>

record hist_trace =
  h_y :: "string list"
  h_marker_color :: string
  h_name :: string
  h_showlegend :: bool

record hist_figure =
  h_data :: "hist_trace list"
  h_yaxis_visible :: bool
  h_yaxis_showticklabels :: bool

definition make_hist :: "listing list \<Rightarrow> hist_figure" where
  "make_hist df =
     (let df_entire_home = map room_type (filter (\<lambda>r. room_type r = ''Entire home/apt'') df);
          df_private_room = map room_type (filter (\<lambda>r. room_type r = ''Private room'') df);
          df_shared_room = map room_type (filter (\<lambda>r. room_type r = ''Shared room'') df)
      in \<lparr>h_data =
            [\<lparr>h_y = df_shared_room, h_marker_color = ''blue'', h_name = ''Shared room'',
              h_showlegend = False\<rparr>,
             \<lparr>h_y = df_private_room, h_marker_color = ''green'', h_name = ''Private room'',
              h_showlegend = False\<rparr>,
             \<lparr>h_y = df_entire_home, h_marker_color = ''red'', h_name = ''Entire home/apt'',
              h_showlegend = False\<rparr>],
          h_yaxis_visible = False, h_yaxis_showticklabels = False\<rparr>)"

text \<open>
  One customdata entry: name, host name, host-since, price (the raw cell),
  accommodates and the rounded availability figure.
\<close>

type_synonym customdatum = "string \<times> string \<times> string \<times> string option \<times> int \<times> rat"

definition make_hovertemplate :: "customdatum list \<Rightarrow> string" where
  "make_hovertemplate customdata =
     ''<b>Apartment: %{customdata[0]}</b><br><b>Host name: </b><b>%{customdata[1]}</b><br><b>Host Since:''
     @ [CHR 0x0A]
     @ ''            </b>%{customdata[2]}<br><b>Price: </b>%{customdata[3]} / night<br><b>Person to accommodate: </b>%{customdata[4]}''
     @ [CHR 0x0A]
     @ ''            <br><b>Yearly Availability: </b>%{customdata[5]} days/year''"

record map_trace =
  t_type :: string
  t_lat :: "cell list"
  t_lon :: "cell list"
  t_marker_color :: string
  t_customdata :: "customdatum list"
  t_name :: string
  t_hovertemplate :: string

record map_layout =
  l_style :: string
  l_uirevision :: bool
  l_zoom :: nat
  l_center_lon :: pyfloat
  l_center_lat :: pyfloat
  l_margin :: "nat \<times> nat \<times> nat \<times> nat"
  l_height :: nat
  l_showlegend :: bool
  l_hovermode :: string

record map_figure =
  m_data :: "map_trace list"
  m_layout :: map_layout

text \<open>The row of the \<^verbatim>\<open>zip\<close> in \<^verbatim>\<open>make_mapchart\<close> that one listing contributes.\<close>

definition customdatum_of :: "listing \<Rightarrow> customdatum" where
  "customdatum_of r =
     (name r, host_name r, host_since r, price r, accommodates r,
      round1 (of_int (availability_365 r) / 365 * 100))"

definition make_mapchart :: "listing list \<Rightarrow> map_figure" where
  "make_mapchart df =
     (let customdata = map customdatum_of df;
          df_entire_home = filter (\<lambda>r. room_type r = ''Entire home/apt'') df;
          df_private_room = filter (\<lambda>r. room_type r = ''Private room'') df;
          df_shared_room = filter (\<lambda>r. room_type r = ''Shared room'') df;
          data =
            [\<lparr>t_type = ''scattermapbox'',
              t_lat = map latitude df_entire_home, t_lon = map longitude df_entire_home,
              t_marker_color = ''red'', t_customdata = customdata,
              t_name = ''Entire home'', t_hovertemplate = make_hovertemplate customdata\<rparr>,
             \<lparr>t_type = ''scattermapbox'',
              t_lat = map latitude df_private_room, t_lon = map longitude df_private_room,
              t_marker_color = ''green'', t_customdata = customdata,
              t_name = ''Private room'', t_hovertemplate = make_hovertemplate customdata\<rparr>,
             \<lparr>t_type = ''scattermapbox'',
              t_lat = map latitude df_shared_room, t_lon = map longitude df_shared_room,
              t_marker_color = ''blue'', t_customdata = customdata,
              t_name = ''Shared room'', t_hovertemplate = make_hovertemplate customdata\<rparr>];
          layout =
            \<lparr>l_style = ''open-street-map'', l_uirevision = True, l_zoom = 13,
             l_center_lon = mean (map of_cell (map longitude df)),
             l_center_lat = mean (map of_cell (map latitude df)),
             l_margin = (10, 10, 10, 10), l_height = 900, l_showlegend = False,
             l_hovermode = ''closest''\<rparr>
      in \<lparr>m_data = data, m_layout = layout\<rparr>)"

text \<open>
  How the charting library reads a trace: point \<open>i\<close> of a trace is its \<open>i\<close>-th
  coordinate pair, and the hover template's \<^verbatim>\<open>%{customdata[k]}\<close> is filled from the
  \<open>i\<close>-th entry of that trace's customdata.
\<close>

definition trace_points :: "map_trace \<Rightarrow> (cell \<times> cell) list" where
  "trace_points tr = zip (t_lat tr) (t_lon tr)"

definition point_customdata :: "map_trace \<Rightarrow> nat \<Rightarrow> customdatum option" where
  "point_customdata tr i =
     (if i < length (t_customdata tr) then Some (t_customdata tr ! i) else None)"

section \<open>The statistics\<close>

text \<open>
  \<^verbatim>\<open>dff["price"].str.replace("$", "").str.replace(",", "").str.rstrip(".00")\<close>, cell by
  cell; the string accessor leaves a missing cell missing.
\<close>

definition clean_price :: "string \<Rightarrow> string" where
  "clean_price s = rstrip ''.00'' (str_replace CHR '','' '''' (str_replace CHR ''$'' '''' s))"

definition price_night :: "listing list \<Rightarrow> py_error + pyfloat" where
  "price_night dff =
     (case to_numeric (map (\<lambda>r. map_option clean_price (price r)) dff) of
        Inl e \<Rightarrow> Inl e
      | Inr vs \<Rightarrow> Inr (mean vs))"

definition est_nights_year :: "listing list \<Rightarrow> pyfloat" where
  "est_nights_year dff =
     fmul
       (fmul
          (mean
             (map of_cell
                (dropna (map (\<lambda>r. cmul (minimum_nights_avg_ntm r) (reviews_per_month r)) dff))))
          (Fin 12))
       (Fin (1 / (1 - guests_not_leaving_review)))"

definition est_occupancy :: "pyfloat \<Rightarrow> pyfloat" where
  "est_occupancy nights = fdiv_lit nights 365"

definition estimated_income_month :: "pyfloat \<Rightarrow> pyfloat \<Rightarrow> pyfloat" where
  "estimated_income_month pn nights = fdiv_lit (fmul pn nights) 12"

definition reviews_listings_month :: "listing list \<Rightarrow> pyfloat" where
  "reviews_listings_month dff = mean (map of_cell (dropna (map reviews_per_month dff)))"

definition perc_listings :: "listing list \<Rightarrow> listing list \<Rightarrow> py_error + rat" where
  "perc_listings dff listings = py_truediv (length dff) (length listings)"

definition ent_home_perc :: "listing list \<Rightarrow> py_error + rat" where
  "ent_home_perc dff =
     py_truediv (length (filter (\<lambda>r. room_type r = ''Entire home/apt'') dff)) (length dff)"

section \<open>The update callback\<close>

text \<open>
  The eleven outputs, named after the component ids of the callback's decorator. Each
  statistic is the number handed to \<^verbatim>\<open>str.format\<close>; rendering it into digits is not
  modelled. The format type \<^verbatim>\<open>%\<close> shows its argument multiplied by 100.
\<close>

record outputs =
  o_map :: map_figure
  o_hist :: hist_figure
  o_est_nights_year :: pyfloat
  o_est_occupancy :: pyfloat
  o_estimated_income_month :: pyfloat
  o_price_night :: pyfloat
  o_reviews_listings_month :: pyfloat
  o_number_of_reviews :: int
  o_num_listings :: nat
  o_perc_listings :: rat
  o_ent_home_perc :: rat

definition percent :: "rat \<Rightarrow> rat" where
  "percent x = x * 100"

text \<open>The subset: the rows of the chosen neighbourhood, or the table when none is chosen.\<close>

definition dff_of :: "listing list \<Rightarrow> string option \<Rightarrow> listing list" where
  "dff_of listings nbh_cleansed =
     (case nbh_cleansed of
        Some l \<Rightarrow> filter (\<lambda>r. neighbourhood_cleansed r = l) listings
      | None \<Rightarrow> listings)"

text \<open>
  The callback. The table is the module's global \<^verbatim>\<open>listings\<close>. The price is parsed
  before the result tuple is built, and the tuple's two integer divisions are its last
  two entries, evaluated in that order.
\<close>

definition update_num_listings :: "listing list \<Rightarrow> string option \<Rightarrow> py_error + outputs" where
  "update_num_listings listings nbh_cleansed =
     (let dff = dff_of listings nbh_cleansed;
          mapchart = make_mapchart dff;
          hist = make_hist dff
      in case price_night dff of
           Inl e \<Rightarrow> Inl e
         | Inr pn \<Rightarrow>
             (let nights = est_nights_year dff;
                  occupancy = est_occupancy nights;
                  income = estimated_income_month pn nights
              in case perc_listings dff listings of
                   Inl e \<Rightarrow> Inl e
                 | Inr pl \<Rightarrow>
                     (case ent_home_perc dff of
                        Inl e \<Rightarrow> Inl e
                      | Inr eh \<Rightarrow>
                          Inr \<lparr>o_map = mapchart, o_hist = hist,
                               o_est_nights_year = nights,
                               o_est_occupancy = occupancy,
                               o_estimated_income_month = income,
                               o_price_night = pn,
                               o_reviews_listings_month = reviews_listings_month dff,
                               o_number_of_reviews = sum_list (map number_of_reviews dff),
                               o_num_listings = length dff,
                               o_perc_listings = pl,
                               o_ent_home_perc = eh\<rparr>)))"

section \<open>The statistics in the specification's words\<close>

text \<open>
  The price of a well-formed currency string: the currency symbol and the grouping
  separators removed, the rest read as a decimal number.
\<close>

definition spec_price_value :: "string \<Rightarrow> py_error + pyfloat" where
  "spec_price_value s =
     parse_float (filter (\<lambda>c. c \<noteq> CHR ''$'' \<and> c \<noteq> CHR '','') s)"

text \<open>The mean nightly price: the mean of those values over the rows that have a price.\<close>

fun spec_price_values :: "string option list \<Rightarrow> py_error + pyfloat list" where
  "spec_price_values [] = Inr []"
| "spec_price_values (None # cs) =
     (case spec_price_values cs of Inl e \<Rightarrow> Inl e | Inr vs \<Rightarrow> Inr (NaN # vs))"
| "spec_price_values (Some s # cs) =
     (case spec_price_value s of
        Inl e \<Rightarrow> Inl e
      | Inr v \<Rightarrow> (case spec_price_values cs of Inl e \<Rightarrow> Inl e | Inr vs \<Rightarrow> Inr (v # vs)))"

definition spec_price_night :: "listing list \<Rightarrow> py_error + pyfloat" where
  "spec_price_night dff =
     (case spec_price_values (map price dff) of Inl e \<Rightarrow> Inl e | Inr vs \<Rightarrow> Inr (mean vs))"

text \<open>
  The mean of minimum-nights-average times reviews-per-month over exactly the rows where
  both are present (NaN when there is no such row).
\<close>

definition both_present :: "listing \<Rightarrow> bool" where
  "both_present r = (minimum_nights_avg_ntm r \<noteq> None \<and> reviews_per_month r \<noteq> None)"

definition spec_mean_nights :: "listing list \<Rightarrow> pyfloat" where
  "spec_mean_nights dff =
     (let rows = filter both_present dff
      in if rows = [] then NaN
         else Fin (sum_list (map (\<lambda>r. the (minimum_nights_avg_ntm r) * the (reviews_per_month r)) rows)
                / of_nat (length rows)))"

section \<open>Sample tables\<close>

definition sample_listing :: "string \<Rightarrow> string \<Rightarrow> string \<Rightarrow> string option \<Rightarrow> listing" where
  "sample_listing nm nbh rt p =
     \<lparr>name = nm, host_name = ''Marco'', host_since = ''2015-06-01'', room_type = rt,
      price = p, latitude = Some (4543 / 100), longitude = Some (1233 / 100),
      accommodates = 2, availability_365 = 100,
      minimum_nights_avg_ntm = Some 2, reviews_per_month = Some 2,
      number_of_reviews = 10, neighbourhood_cleansed = nbh\<rparr>"

text \<open>Three listings, all priced \<^verbatim>\<open>$100.00\<close>, two reviews a month, minimum nights 2.\<close>

definition three_at_100 :: "listing list" where
  "three_at_100 =
     [sample_listing ''A'' ''Cannaregio'' ''Entire home/apt'' (Some ''$100.00''),
      sample_listing ''B'' ''Cannaregio'' ''Entire home/apt'' (Some ''$100.00''),
      sample_listing ''C'' ''Castello'' ''Private room'' (Some ''$100.00'')]"

text \<open>A table with one price that is not a number.\<close>

definition one_malformed :: "listing list" where
  "one_malformed =
     [sample_listing ''A'' ''Cannaregio'' ''Entire home/apt'' (Some ''$85.00''),
      sample_listing ''B'' ''Cannaregio'' ''Private room'' (Some ''$abc'')]"

text \<open>A table with one price written with an exponent.\<close>

definition one_exponent :: "listing list" where
  "one_exponent =
     [sample_listing ''A'' ''Cannaregio'' ''Entire home/apt'' (Some ''$85.00''),
      sample_listing ''B'' ''Cannaregio'' ''Private room'' (Some ''$1e3'')]"

text \<open>A private room listed before an entire home.\<close>

definition private_then_entire :: "listing list" where
  "private_then_entire =
     [sample_listing ''Room by the canal'' ''Cannaregio'' ''Private room'' (Some ''$60.00''),
      (sample_listing ''Whole flat'' ''Cannaregio'' ''Entire home/apt'' (Some ''$185.00''))
        \<lparr>latitude := Some (4544 / 100), longitude := Some (1234 / 100)\<rparr>]"

section \<open>Facts about the library operations\<close>

lemma floor_rat_divide_numeral:
  "\<lfloor>(numeral a :: rat) / numeral b\<rfloor> = numeral a div numeral b"
  using floor_divide_of_int_eq [of "numeral a" "numeral b", where ?'a = rat] by simp

lemma set_unique: "set (unique xs) = set xs"
  by (induction xs rule: unique.induct) auto

lemma unique_all_equal:
  assumes "xs \<noteq> []" and "\<forall>x\<in>set xs. x = l"
  shows "unique xs = [l]"
proof (cases xs)
  case Nil
  with assms show ?thesis by simp
next
  case (Cons x xs')
  with assms have "x = l" and "filter (\<lambda>y. y \<noteq> x) xs' = []"
    by (auto simp: filter_empty_conv)
  with Cons show ?thesis by simp
qed

text \<open>
  Grouping rows by a key loses none and counts none twice. The induction follows the
  recursion of \<open>unique\<close>: the rows with the first key are split off, the others form a
  shorter list.
\<close>

lemma partition_by_key:
  "sum_list (map (\<lambda>l. length (filter (\<lambda>r. f r = l) xs)) (unique (map f xs))) = length xs"
proof (induction "length xs" arbitrary: xs rule: less_induct)
  case less
  show ?case
  proof (cases xs)
    case Nil
    then show ?thesis by simp
  next
    case (Cons x xs')
    define rest where "rest = filter (\<lambda>r. f r \<noteq> f x) xs'"
    have len: "length rest < length xs"
      by (simp add: rest_def Cons le_imp_less_Suc)
    have keys: "filter (\<lambda>y. y \<noteq> f x) (map f xs') = map f rest"
      by (simp add: rest_def filter_map o_def)
    have same: "length (filter (\<lambda>r. f r = l) xs) = length (filter (\<lambda>r. f r = l) rest)"
      if "l \<in> set (unique (map f rest))" for l
    proof -
      from that have "l \<in> f ` set rest" by (simp add: set_unique)
      then have "l \<noteq> f x" by (auto simp: rest_def)
      then have "filter (\<lambda>r. f r = l) xs = filter (\<lambda>r. f r = l) rest"
        by (auto simp: Cons rest_def intro: filter_cong)
      then show ?thesis by simp
    qed
    have "sum_list (map (\<lambda>l. length (filter (\<lambda>r. f r = l) xs)) (unique (map f rest)))
        = sum_list (map (\<lambda>l. length (filter (\<lambda>r. f r = l) rest)) (unique (map f rest)))"
      using same by (auto intro: arg_cong[where f = sum_list] map_cong)
    also have "\<dots> = length rest"
      using less.hyps[OF len] .
    finally have tail:
      "sum_list (map (\<lambda>l. length (filter (\<lambda>r. f r = l) xs)) (unique (map f rest)))
        = length rest" .
    have "length (filter (\<lambda>r. f r = f x) xs') + length rest = length xs'"
      unfolding rest_def by (rule sum_length_filter_compl)
    with tail show ?thesis
      by (simp add: Cons keys)
  qed
qed

lemma present_dropna: "present (dropna xs) = present xs"
  by (induction xs rule: present.induct) (simp_all add: dropna_def)

lemma present_products:
  "present (map (\<lambda>r. cmul (minimum_nights_avg_ntm r) (reviews_per_month r)) dff)
     = map (\<lambda>r. the (minimum_nights_avg_ntm r) * the (reviews_per_month r))
         (filter both_present dff)"
  by (induction dff) (auto simp: cmul_def both_present_def split: option.splits)

text \<open>The mean of a column of the table: no infinity arises from its cells.\<close>

lemma filter_of_cell: "filter (\<lambda>x. x \<noteq> NaN) (map of_cell cs) = map Fin (present cs)"
  by (induction cs rule: present.induct) (simp_all add: of_cell_def)

lemma mean_of_cells:
  "mean (map of_cell cs)
     = (if present cs = [] then NaN
        else Fin (sum_list (present cs) / of_nat (length (present cs))))"
proof -
  have "map fin_val (map Fin vs) = vs" for vs
    by (induction vs) simp_all
  then show ?thesis
    by (auto simp: mean_def filter_of_cell Let_def)
qed

text \<open>
  The element-wise product followed by \<^verbatim>\<open>dropna().mean()\<close> is the mean over the rows
  where both factors are present.
\<close>

lemma mean_products:
  "mean (map of_cell
       (dropna (map (\<lambda>r. cmul (minimum_nights_avg_ntm r) (reviews_per_month r)) dff)))
     = spec_mean_nights dff"
  by (simp add: mean_of_cells spec_mean_nights_def present_dropna present_products Let_def)

lemma to_numeric_cell_error: "to_numeric_cell c = Inl e \<Longrightarrow> e = ValueError"
  by (cases e) (auto simp: to_numeric_cell_def parse_float_def
      split: option.splits if_splits)


lemma to_numeric_error: "to_numeric cs = Inl e \<Longrightarrow> e = ValueError"
  by (induction cs) (auto split: sum.splits dest: to_numeric_cell_error)

lemma price_night_error: "price_night dff = Inl e \<Longrightarrow> e = ValueError"
  by (auto simp: price_night_def split: sum.splits dest: to_numeric_error)

lemma price_night_Nil: "price_night [] = Inr NaN"
  by (simp add: price_night_def mean_def)

text \<open>The definitions a concrete price is evaluated with.\<close>

lemmas parse_defs =
  parse_float_def xstrtod_def inf_word_def tolower_def split_sign_def is_space_def
  is_digit_def digits_val_def digit_val_def pow10_def

lemmas price_defs =
  price_night_def clean_price_def rstrip_def str_replace_def to_numeric_cell_def
  parse_defs mean_def

text \<open>
  Spellings the conversion accepts besides plain decimals, and some it refuses.
\<close>

lemma accepted_spellings:
  "parse_float ''85'' = Inr (Fin 85)"
  "parse_float ''1e3'' = Inr (Fin 1000)"
  "parse_float ''1.5E-2'' = Inr (Fin (3 / 200))"
  "parse_float '' 85'' = Inr (Fin 85)"
  "parse_float ''85 '' = Inr (Fin 85)"
  "parse_float ''inf'' = Inr PInf"
  "parse_float ''Infinity'' = Inr PInf"
  "parse_float ''-INF'' = Inr NInf"
  "parse_float '''' = Inr NaN"
  by (simp_all add: parse_defs)

lemma refused_spellings:
  "parse_float ''abc'' = Inl ValueError"
  "parse_float ''1.2.3'' = Inl ValueError"
  "parse_float ''1e'' = Inl ValueError"
  "parse_float '' inf'' = Inl ValueError"
  "parse_float ''-'' = Inl ValueError"
  by (simp_all add: parse_defs)

text \<open>A price written with an exponent is a number like any other.\<close>

lemma price_night_one_exponent: "price_night one_exponent = Inr (Fin (1085 / 2))"
  by (simp add: one_exponent_def sample_listing_def price_defs)

section \<open>When the callback returns\<close>

text \<open>
  The callback returns its outputs exactly when the subset is non-empty and every price
  cell of the subset converts; otherwise it raises.
\<close>

lemma update_returns:
  assumes "dff_of listings nbh_cleansed \<noteq> []"
    and "price_night (dff_of listings nbh_cleansed) = Inr pn"
  shows "\<exists>out. update_num_listings listings nbh_cleansed = Inr out"
proof -
  from assms(1) have "listings \<noteq> []"
    by (auto simp: dff_of_def split: option.splits)
  with assms show ?thesis
    by (simp add: update_num_listings_def Let_def perc_listings_def ent_home_perc_def
        py_truediv_def)
qed

lemma update_Inr_subset:
  assumes "update_num_listings listings nbh_cleansed = Inr out"
  shows "dff_of listings nbh_cleansed \<noteq> []"
  using assms
  by (auto simp: update_num_listings_def Let_def perc_listings_def ent_home_perc_def
      py_truediv_def split: sum.splits if_splits)

lemma update_Inr_fields:
  assumes "update_num_listings listings nbh_cleansed = Inr out"
  shows "ent_home_perc (dff_of listings nbh_cleansed) = Inr (o_ent_home_perc out)"
    and "perc_listings (dff_of listings nbh_cleansed) listings = Inr (o_perc_listings out)"
    and "price_night (dff_of listings nbh_cleansed) = Inr (o_price_night out)"
  using assms
  by (auto simp: update_num_listings_def Let_def split: sum.splits)

lemma two_entire_evals:
  "price_night (take 2 three_at_100) = Inr (Fin 1)"
  "take 2 three_at_100 \<noteq> []"
  "\<forall>r\<in>set (take 2 three_at_100). room_type r = ''Entire home/apt''"
  by (simp_all add: three_at_100_def sample_listing_def price_defs)

lemma sample_evals:
  "price_night three_at_100 = Inr (Fin 1)"
  "spec_mean_nights three_at_100 = Fin 4"
  "price_night one_malformed = Inl ValueError"
  "spec_price_night three_at_100 = Inr (Fin 100)"
  by (simp_all add: three_at_100_def one_malformed_def sample_listing_def price_defs
      spec_mean_nights_def both_present_def spec_price_night_def spec_price_value_def)

section \<open>The mean nightly price\<close>

text \<open>
  C1. For well-formed currency strings the mean nightly price should be the mean of the
  numbers left after removing the currency symbol and the grouping separators; three
  listings priced \<^verbatim>\<open>$100.00\<close> with no filter should give 100. The code's
  \<^verbatim>\<open>rstrip(".00")\<close> removes every trailing \<^verbatim>\<open>.\<close> and \<^verbatim>\<open>0\<close>, so \<^verbatim>\<open>100.00\<close> becomes
  \<^verbatim>\<open>1\<close>: on that table the callback's price output is 1, while each price read in the
  specification's way is 100.
\<close>

theorem price_night_of_three_at_100:
  "map_sum id o_price_night (update_num_listings three_at_100 None) = Inr (Fin 1)
   \<and> map (\<lambda>r. map_option spec_price_value (price r)) three_at_100
       = [Some (Inr (Fin 100)), Some (Inr (Fin 100)), Some (Inr (Fin 100))]"
  by (simp add: update_num_listings_def dff_of_def Let_def perc_listings_def ent_home_perc_def
      py_truediv_def three_at_100_def sample_listing_def price_defs spec_price_value_def)

section \<open>The empty subset\<close>

text \<open>
  C2, as the code has it. When the subset is empty the callback raises
  \<^verbatim>\<open>ZeroDivisionError\<close> and publishes nothing: the entire-home share divides the integer
  0 by the integer 0 (and the listing share already does when the table itself is empty,
  being 0 otherwise). The values computed before that point are NaN for every mean (price,
  nights per year, occupancy, income, reviews per month) and zero for the review total
  and the listing count.
\<close>

theorem empty_subset_raises:
  assumes "dff_of listings nbh_cleansed = []"
  shows "update_num_listings listings nbh_cleansed = Inl ZeroDivisionError
    \<and> ent_home_perc (dff_of listings nbh_cleansed) = Inl ZeroDivisionError
    \<and> perc_listings (dff_of listings nbh_cleansed) listings
        = (if listings = [] then Inl ZeroDivisionError else Inr 0)
    \<and> price_night (dff_of listings nbh_cleansed) = Inr NaN
    \<and> est_nights_year (dff_of listings nbh_cleansed) = NaN
    \<and> est_occupancy (est_nights_year (dff_of listings nbh_cleansed)) = NaN
    \<and> estimated_income_month NaN (est_nights_year (dff_of listings nbh_cleansed)) = NaN
    \<and> reviews_listings_month (dff_of listings nbh_cleansed) = NaN
    \<and> sum_list (map number_of_reviews (dff_of listings nbh_cleansed)) = 0
    \<and> length (dff_of listings nbh_cleansed) = 0"
  using assms
  by (simp add: update_num_listings_def Let_def price_night_Nil perc_listings_def
      ent_home_perc_def py_truediv_def est_nights_year_def est_occupancy_def
      estimated_income_month_def reviews_listings_month_def mean_def dropna_def)

theorem empty_subset_raises_witness:
  "dff_of three_at_100 (Some ''Murano'') = []
   \<and> update_num_listings three_at_100 (Some ''Murano'') = Inl ZeroDivisionError
   \<and> perc_listings (dff_of three_at_100 (Some ''Murano'')) three_at_100 = Inr 0"
proof -
  have e: "dff_of three_at_100 (Some ''Murano'') = []"
    by (simp add: dff_of_def three_at_100_def sample_listing_def)
  have "three_at_100 \<noteq> []" by (simp add: three_at_100_def)
  with e empty_subset_raises [OF e] show ?thesis by simp
qed

text \<open>
  The claim as first stated (no division fault on an empty subset) fails for a label that
  no row of the table carries.
\<close>

theorem empty_subset_division_fault:
  "dff_of three_at_100 (Some ''Murano'') = []
   \<and> update_num_listings three_at_100 (Some ''Murano'') = Inl ZeroDivisionError"
  by (simp add: update_num_listings_def dff_of_def Let_def perc_listings_def ent_home_perc_def
      py_truediv_def three_at_100_def sample_listing_def price_night_def mean_def)

section \<open>Malformed prices\<close>




section \<open>Estimated activity\<close>

text \<open>
  What the callback computes. Whenever it returns, the estimated nights per year are the
  mean of minimum-nights-average times reviews-per-month over exactly the rows where both
  are present, times 12, times \<open>1 / (1 - R)\<close> with \<open>R = 0.65\<close>; the occupancy is that
  number divided by 365; and the monthly income is the callback's own price output times
  that number, divided by 12.
\<close>

lemma activity_formulas:
  assumes "update_num_listings listings nbh_cleansed = Inr out"
  shows "o_est_nights_year out
        = fmul (fmul (spec_mean_nights (dff_of listings nbh_cleansed)) (Fin 12))
            (Fin (1 / (1 - 65 / 100)))
    \<and> o_est_occupancy out = fdiv_lit (o_est_nights_year out) 365
    \<and> o_estimated_income_month out
        = fdiv_lit (fmul (o_price_night out) (o_est_nights_year out)) 12"
  using assms
  by (auto simp: update_num_listings_def Let_def est_nights_year_def est_occupancy_def
      estimated_income_month_def mean_products guests_not_leaving_review_def
      split: sum.splits)

text \<open>
  C4. The nights per year and the occupancy are as the claim states them, but the monthly
  income should be the mean price times the nights per year, divided by 12, and the
  price the callback multiplies with has lost its trailing zeros (see the mean nightly
  price above). On three listings priced \<^verbatim>\<open>$100.00\<close>, two reviews a month and minimum
  nights 2, the nights per year are \<open>960 / 7\<close> (about 137) and the occupancy is
  \<open>192 / 511\<close>, while the income output is \<open>80 / 7\<close> (about 11.43): the mean price
  is 100, and 100 times \<open>960 / 7\<close> divided by 12 is \<open>8000 / 7\<close> (about 1142.86).
\<close>

theorem income_of_three_at_100:
  "map_sum id o_est_nights_year (update_num_listings three_at_100 None)
      = Inr (Fin (960 / 7))
   \<and> map_sum id o_est_occupancy (update_num_listings three_at_100 None)
      = Inr (Fin (192 / 511))
   \<and> map_sum id o_estimated_income_month (update_num_listings three_at_100 None)
      = Inr (Fin (80 / 7))
   \<and> spec_price_night three_at_100 = Inr (Fin 100)
   \<and> estimated_income_month (Fin 100) (Fin (960 / 7)) = Fin (8000 / 7)"
proof -
  have n: "est_nights_year three_at_100 = Fin (960 / 7)"
    by (simp add: est_nights_year_def mean_products sample_evals
        guests_not_leaving_review_def)
  have "update_num_listings three_at_100 None
      = Inr \<lparr>o_map = make_mapchart three_at_100, o_hist = make_hist three_at_100,
             o_est_nights_year = Fin (960 / 7),
             o_est_occupancy = Fin (192 / 511),
             o_estimated_income_month = Fin (80 / 7),
             o_price_night = Fin 1,
             o_reviews_listings_month = reviews_listings_month three_at_100,
             o_number_of_reviews = sum_list (map number_of_reviews three_at_100),
             o_num_listings = length three_at_100,
             o_perc_listings = 1,
             o_ent_home_perc = 2 / 3\<rparr>"
    by (simp add: update_num_listings_def dff_of_def Let_def sample_evals n
        est_occupancy_def estimated_income_month_def perc_listings_def ent_home_perc_def
        py_truediv_def)
      (simp add: three_at_100_def sample_listing_def)
  then show ?thesis
    by (simp add: sample_evals estimated_income_month_def)
qed

section \<open>One subset for every output\<close>

text \<open>
  C5. In one update the subset is derived from the table and the selector's value, and
  that subset is what the map, the histogram and every statistic are computed from
  (the listing share also divides by the size of the whole table, as it must). Hence two
  updates with the same subset and tables of the same size publish the same outputs: no
  output can come from another subset.
\<close>

theorem one_subset_for_all_outputs:
  assumes "update_num_listings listings nbh_cleansed = Inr out"
  shows "o_map out = make_mapchart (dff_of listings nbh_cleansed)
    \<and> o_hist out = make_hist (dff_of listings nbh_cleansed)
    \<and> price_night (dff_of listings nbh_cleansed) = Inr (o_price_night out)
    \<and> o_est_nights_year out = est_nights_year (dff_of listings nbh_cleansed)
    \<and> o_est_occupancy out = est_occupancy (est_nights_year (dff_of listings nbh_cleansed))
    \<and> o_estimated_income_month out
        = estimated_income_month (o_price_night out)
            (est_nights_year (dff_of listings nbh_cleansed))
    \<and> o_reviews_listings_month out = reviews_listings_month (dff_of listings nbh_cleansed)
    \<and> o_number_of_reviews out = sum_list (map number_of_reviews (dff_of listings nbh_cleansed))
    \<and> o_num_listings out = length (dff_of listings nbh_cleansed)
    \<and> perc_listings (dff_of listings nbh_cleansed) listings = Inr (o_perc_listings out)
    \<and> ent_home_perc (dff_of listings nbh_cleansed) = Inr (o_ent_home_perc out)
    \<and> (\<forall>listings' nbh'.
          dff_of listings' nbh' = dff_of listings nbh_cleansed
            \<and> length listings' = length listings
          \<longrightarrow> update_num_listings listings' nbh' = Inr out)"
  using assms
  by (auto simp: update_num_listings_def Let_def perc_listings_def split: sum.splits)

theorem one_subset_for_all_outputs_witness:
  "\<exists>out. update_num_listings three_at_100 (Some ''Cannaregio'') = Inr out
     \<and> dff_of three_at_100 (Some ''Cannaregio'') = take 2 three_at_100
     \<and> o_map out = make_mapchart (take 2 three_at_100)
     \<and> o_hist out = make_hist (take 2 three_at_100)
     \<and> o_num_listings out = 2
     \<and> o_number_of_reviews out = 20
     \<and> update_num_listings
          (take 2 three_at_100
             @ [sample_listing ''D'' ''Murano'' ''Shared room'' (Some ''$40.00'')])
          (Some ''Cannaregio'') = Inr out"
proof -
  let ?other =
    "take 2 three_at_100 @ [sample_listing ''D'' ''Murano'' ''Shared room'' (Some ''$40.00'')]"
  have d: "dff_of three_at_100 (Some ''Cannaregio'') = take 2 three_at_100"
    by (simp add: dff_of_def three_at_100_def sample_listing_def)
  have d': "dff_of ?other (Some ''Cannaregio'') = take 2 three_at_100"
    by (simp add: dff_of_def three_at_100_def sample_listing_def)
  have l: "length ?other = length three_at_100"
    by (simp add: three_at_100_def)
  have t: "take 2 three_at_100
      = [sample_listing ''A'' ''Cannaregio'' ''Entire home/apt'' (Some ''$100.00''),
         sample_listing ''B'' ''Cannaregio'' ''Entire home/apt'' (Some ''$100.00'')]"
    by (simp add: three_at_100_def)
  from two_entire_evals d
  obtain out where u: "update_num_listings three_at_100 (Some ''Cannaregio'') = Inr out"
    using update_returns [of three_at_100 "Some ''Cannaregio''"] by auto
  from one_subset_for_all_outputs [OF u] d d' l
  have "update_num_listings ?other (Some ''Cannaregio'') = Inr out"
    by simp
  with one_subset_for_all_outputs [OF u] d u show ?thesis
    by (simp add: t sample_listing_def)
qed

section \<open>Filtering by neighbourhood\<close>

text \<open>
  C6. For every neighbourhood label present in the table, the subset for that label is not
  empty, every row of it carries the label, and the distinct labels of the subset are
  exactly that one label.
\<close>

theorem filter_by_present_label:
  assumes "l \<in> set (neighbourhoods listings)"
  shows "dff_of listings (Some l) \<noteq> []
    \<and> (\<forall>r\<in>set (dff_of listings (Some l)). neighbourhood_cleansed r = l)
    \<and> neighbourhoods (dff_of listings (Some l)) = [l]"
proof -
  from assms obtain r where "r \<in> set listings" "neighbourhood_cleansed r = l"
    by (auto simp: neighbourhoods_def set_unique)
  then have ne: "dff_of listings (Some l) \<noteq> []"
    by (auto simp: dff_of_def filter_empty_conv)
  have all: "\<forall>r\<in>set (dff_of listings (Some l)). neighbourhood_cleansed r = l"
    by (simp add: dff_of_def)
  from ne all have "unique (map neighbourhood_cleansed (dff_of listings (Some l))) = [l]"
    by (intro unique_all_equal) auto
  with ne all show ?thesis by (simp add: neighbourhoods_def)
qed

theorem filter_by_present_label_witness:
  "''Castello'' \<in> set (neighbourhoods three_at_100)
   \<and> dff_of three_at_100 (Some ''Castello'')
       = [sample_listing ''C'' ''Castello'' ''Private room'' (Some ''$100.00'')]
   \<and> neighbourhoods (dff_of three_at_100 (Some ''Castello'')) = [''Castello'']"
proof -
  have m: "''Castello'' \<in> set (neighbourhoods three_at_100)"
    by (simp add: neighbourhoods_def three_at_100_def sample_listing_def)
  have "dff_of three_at_100 (Some ''Castello'')
       = [sample_listing ''C'' ''Castello'' ''Private room'' (Some ''$100.00'')]"
    by (simp add: dff_of_def three_at_100_def sample_listing_def)
  with filter_by_present_label [OF m] m show ?thesis by simp
qed

section \<open>The two percentages\<close>

text \<open>
  C7. Whenever the callback returns (so the subset is not empty), the entire-home
  percentage lies between 0 and 100, and it is 100 when every row of the subset is an
  entire home; with no filter, the listing-count percentage is 100.
\<close>

theorem percentages:
  assumes "update_num_listings listings nbh_cleansed = Inr out"
  shows "0 \<le> percent (o_ent_home_perc out) \<and> percent (o_ent_home_perc out) \<le> 100
    \<and> ((\<forall>r\<in>set (dff_of listings nbh_cleansed). room_type r = ''Entire home/apt'')
          \<longrightarrow> percent (o_ent_home_perc out) = 100)
    \<and> (nbh_cleansed = None \<longrightarrow> percent (o_perc_listings out) = 100)"
proof -
  let ?dff = "dff_of listings nbh_cleansed"
  let ?ent = "filter (\<lambda>r. room_type r = ''Entire home/apt'') ?dff"
  from assms have ne: "?dff \<noteq> []" by (rule update_Inr_subset)
  from assms have eh: "ent_home_perc ?dff = Inr (o_ent_home_perc out)"
    and pl: "perc_listings ?dff listings = Inr (o_perc_listings out)"
    by (rule update_Inr_fields)+
  from eh ne have v: "o_ent_home_perc out = of_nat (length ?ent) / of_nat (length ?dff)"
    by (simp add: ent_home_perc_def py_truediv_def)
  have "length ?ent \<le> length ?dff" by simp
  then have "(of_nat (length ?ent) :: rat) \<le> of_nat (length ?dff)"
    by (simp only: of_nat_le_iff)
  with ne have "o_ent_home_perc out \<le> 1" "0 \<le> o_ent_home_perc out"
    unfolding v by (simp_all add: divide_le_eq_1)
  then have range: "0 \<le> percent (o_ent_home_perc out)" "percent (o_ent_home_perc out) \<le> 100"
    by (simp_all add: percent_def)
  have full: "percent (o_ent_home_perc out) = 100"
    if "\<forall>r\<in>set ?dff. room_type r = ''Entire home/apt''"
  proof -
    from that have "?ent = ?dff" by simp
    with ne show ?thesis by (simp add: v percent_def)
  qed
  have unfiltered: "percent (o_perc_listings out) = 100" if "nbh_cleansed = None"
  proof -
    from that have "?dff = listings" by (simp add: dff_of_def)
    with pl ne show ?thesis
      by (simp add: perc_listings_def py_truediv_def percent_def)
  qed
  from range full unfiltered show ?thesis by blast
qed

theorem percentages_witness:
  "\<exists>out. update_num_listings (take 2 three_at_100) None = Inr out
     \<and> (\<forall>r\<in>set (dff_of (take 2 three_at_100) None). room_type r = ''Entire home/apt'')
     \<and> percent (o_ent_home_perc out) = 100
     \<and> percent (o_perc_listings out) = 100"
proof -
  have d: "dff_of (take 2 three_at_100) None = take 2 three_at_100"
    by (simp add: dff_of_def)
  with two_entire_evals
  obtain out where u: "update_num_listings (take 2 three_at_100) None = Inr out"
    using update_returns [of "take 2 three_at_100" None] by auto
  from percentages [OF u] two_entire_evals(3) d u show ?thesis
    by auto
qed

section \<open>The neighbourhoods partition the table\<close>

text \<open>
  C8. The sizes of the subsets obtained by filtering on each distinct neighbourhood label
  of the table add up to the number of listings.
\<close>

theorem neighbourhood_counts_partition:
  "sum_list (map (\<lambda>l. length (dff_of listings (Some l))) (neighbourhoods listings))
     = length listings"
  by (simp add: neighbourhoods_def dff_of_def partition_by_key)

section \<open>The map payload\<close>

text \<open>
  Every listing whose room type is one of the three values is a point of exactly one
  trace, so the traces hold one point per listing.
\<close>

lemma map_points:
  assumes "\<forall>r\<in>set df.
      room_type r \<in> {''Entire home/apt'', ''Private room'', ''Shared room''}"
  shows "sum_list (map (\<lambda>tr. length (trace_points tr)) (m_data (make_mapchart df)))
      = length df"
  using assms
proof (induction df)
  case Nil
  then show ?case by (simp add: make_mapchart_def Let_def trace_points_def)
next
  case (Cons r df)
  then show ?case by (auto simp add: make_mapchart_def Let_def trace_points_def)
qed

text \<open>
  C9. Each point's tooltip should show that listing's own name, host, price and
  availability. On a subset that lists a private room before an entire home, the red
  trace has a single point, at the entire home's coordinates, and the customdata entry the
  chart pairs with it is the private room's: the list attached to the trace starts with
  the first row of the whole subset, not with the first entire home.
\<close>

theorem tooltip_of_entire_home_point:
  "map t_name (m_data (make_mapchart private_then_entire))
      = [''Entire home'', ''Private room'', ''Shared room'']
   \<and> t_marker_color (m_data (make_mapchart private_then_entire) ! 0) = ''red''
   \<and> trace_points (m_data (make_mapchart private_then_entire) ! 0)
      = [(Some (4544 / 100), Some (1234 / 100))]
   \<and> point_customdata (m_data (make_mapchart private_then_entire) ! 0) 0
      = Some (''Room by the canal'', ''Marco'', ''2015-06-01'', Some ''$60.00'', 2, 274 / 10)
   \<and> map customdatum_of private_then_entire
      = [(''Room by the canal'', ''Marco'', ''2015-06-01'', Some ''$60.00'', 2, 274 / 10),
         (''Whole flat'', ''Marco'', ''2015-06-01'', Some ''$185.00'', 2, 274 / 10)]"
  by (simp add: make_mapchart_def Let_def private_then_entire_def sample_listing_def
      trace_points_def point_customdata_def customdatum_of_def round1_def rint_def
      floor_rat_divide_numeral)

text \<open>
  C10. For every subset the builder makes one customdata list from the whole subset, in
  row order, and attaches that list and the template that indexes into it to all three
  traces; the list on a trace is never cut down to the rows of the trace's room type.
\<close>

theorem customdata_shared_by_all_traces:
  "map t_customdata (m_data (make_mapchart df))
      = [map customdatum_of df, map customdatum_of df, map customdatum_of df]
   \<and> map t_hovertemplate (m_data (make_mapchart df))
      = [make_hovertemplate (map customdatum_of df),
         make_hovertemplate (map customdatum_of df),
         make_hovertemplate (map customdatum_of df)]
   \<and> map t_name (m_data (make_mapchart df))
      = [''Entire home'', ''Private room'', ''Shared room'']
   \<and> map (\<lambda>tr. length (t_customdata tr)) (m_data (make_mapchart df))
      = [length df, length df, length df]"
  by (simp add: make_mapchart_def Let_def)

end
